theory Spec2Isabelle
  imports Complex_Main
begin

section \<open>Data model of \<open>pkmodel/solution.py\<close>\<close>

text \<open>
  The source computes with Python and numpy floating-point numbers. They are idealised
  here as \<^typ>\<open>real\<close>: every operation that has no real value is an explicit error
  branch, and rounding is left out, except in the double-precision reading of the flux
  engine further down, which rounds the result of every operation. Python's unbounded
  integers are \<^typ>\<open>int\<close>.
\<close>

text \<open>
  The exceptions the modelled code can raise. \<open>OtherError\<close> carries the class name of
  any exception that an external collaborator (the ODE integrator) may raise; the source
  itself defines and raises no exception class of its own.
\<close>

datatype py_error = IndexError | ZeroDivisionError | ValueError | OtherError string

text \<open>
  The model and protocol objects are external; the source reads the attributes below.
  \<open>size_m\<close> is the attribute \<open>model.size\<close>.
\<close>

record Model =
  size_m :: int
  Vc :: real
  CL :: real
  Qps :: "real list"
  Vps :: "real list"

record Protocol =
  subcutaneous :: bool
  dose_time_function :: "real \<Rightarrow> real"
  k_a :: real

section \<open>Python primitives\<close>

text \<open>Sequencing of computations that may raise: the first exception wins.\<close>

definition bind_py :: "py_error + 'a \<Rightarrow> ('a \<Rightarrow> py_error + 'b) \<Rightarrow> py_error + 'b" where
  "bind_py r f = (case r of Inl e \<Rightarrow> Inl e | Inr v \<Rightarrow> f v)"

text \<open>
  \<open>xs[i]\<close> on a list or a one-dimensional array: a negative index counts from the end,
  an index outside \<open>-len .. len - 1\<close> raises \<open>IndexError\<close>.
\<close>

definition index_py :: "'a list \<Rightarrow> int \<Rightarrow> py_error + 'a" where
  "index_py xs i =
     (if 0 \<le> i \<and> i < int (length xs) then Inr (xs ! nat i)
      else if i < 0 \<and> - int (length xs) \<le> i then Inr (xs ! nat (int (length xs) + i))
      else Inl IndexError)"

text \<open>
  \<open>a / b\<close>. A zero divisor has no real quotient: Python numbers raise
  \<open>ZeroDivisionError\<close> there, numpy scalars produce \<open>inf\<close> or \<open>nan\<close> under a warning.
  Both leave the real-number model and are the one outcome \<open>ZeroDivisionError\<close> here.
\<close>

definition truediv :: "real \<Rightarrow> real \<Rightarrow> py_error + real" where
  "truediv a b = (if b = 0 then Inl ZeroDivisionError else Inr (a / b))"

section \<open>Flux engine\<close>

text \<open>
  The loop \<open>for comp in range(1, self.model.size)\<close> of \<open>rhs_intravenous\<close>, over the
  remaining values of \<open>comp\<close> (here \<open>cmp\<close>), threading the growing list \<open>dq_dt\<close> and \<open>flux_sum\<close>.
\<close>

fun flux_loop_intravenous ::
  "Model \<Rightarrow> real list \<Rightarrow> int list \<Rightarrow> real list \<times> real \<Rightarrow> py_error + real list \<times> real"
where
  "flux_loop_intravenous m state [] (dq_dt, flux_sum) = Inr (dq_dt, flux_sum)"
| "flux_loop_intravenous m state (cmp # comps) (dq_dt, flux_sum) =
     bind_py (index_py (Qps m) (cmp - 1)) (\<lambda>Q_pi.
     bind_py (index_py (Vps m) (cmp - 1)) (\<lambda>V_pi.
     bind_py (index_py state 0) (\<lambda>s0.
     bind_py (truediv s0 (Vc m)) (\<lambda>c0.
     bind_py (index_py state cmp) (\<lambda>sc.
     bind_py (truediv sc V_pi) (\<lambda>cp.
       let flux = Q_pi * (c0 - cp)
       in flux_loop_intravenous m state comps (dq_dt @ [flux], flux_sum + flux)))))))"

definition rhs_intravenous :: "Model \<Rightarrow> Protocol \<Rightarrow> real \<Rightarrow> real list \<Rightarrow> py_error + real list" where
  "rhs_intravenous m p t y =
     (let state = y in
      bind_py (index_py state 0) (\<lambda>s0.
      bind_py (truediv s0 (Vc m)) (\<lambda>c.
        let cleared = c * CL m in
        bind_py (flux_loop_intravenous m state [1..size_m m - 1] ([0], 0)) (\<lambda>(dq_dt, flux_sum).
          Inr (dq_dt[0 := dose_time_function p t - cleared - flux_sum])))))"

text \<open>The same loop in \<open>rhs_subcutaneous\<close>: the central pool is \<open>state[1]\<close>.\<close>

fun flux_loop_subcutaneous ::
  "Model \<Rightarrow> real list \<Rightarrow> int list \<Rightarrow> real list \<times> real \<Rightarrow> py_error + real list \<times> real"
where
  "flux_loop_subcutaneous m state [] (dq_dt, flux_sum) = Inr (dq_dt, flux_sum)"
| "flux_loop_subcutaneous m state (cmp # comps) (dq_dt, flux_sum) =
     bind_py (index_py (Qps m) (cmp - 1)) (\<lambda>Q_pi.
     bind_py (index_py (Vps m) (cmp - 1)) (\<lambda>V_pi.
     bind_py (index_py state 1) (\<lambda>s1.
     bind_py (truediv s1 (Vc m)) (\<lambda>c1.
     bind_py (index_py state (cmp + 1)) (\<lambda>sc.
     bind_py (truediv sc V_pi) (\<lambda>cp.
       let flux = Q_pi * (c1 - cp)
       in flux_loop_subcutaneous m state comps (dq_dt @ [flux], flux_sum + flux)))))))"

definition rhs_subcutaneous :: "Model \<Rightarrow> Protocol \<Rightarrow> real \<Rightarrow> real list \<Rightarrow> py_error + real list" where
  "rhs_subcutaneous m p t y =
     (let state = y in
      bind_py (index_py state 1) (\<lambda>s1.
      bind_py (truediv s1 (Vc m)) (\<lambda>c.
        let cleared = c * CL m;
            dq_dt = [0, 0];
            dq0_dt = dose_time_function p t in
        bind_py (index_py state 0) (\<lambda>s0.
          let dq0_dt = dq0_dt - k_a p * s0;
              dq_dt = dq_dt[0 := dq0_dt] in
          bind_py (flux_loop_subcutaneous m state [1..size_m m - 1] (dq_dt, 0)) (\<lambda>(dq_dt, flux_sum).
            bind_py (index_py state 0) (\<lambda>s0.
              Inr (dq_dt[1 := k_a p * s0 - cleared - flux_sum])))))))"

section \<open>Library calls the solver driver makes\<close>

text \<open>
  \<open>numpy.linspace(start, stop, num)\<close>, from its documentation: \<open>num\<close> evenly spaced
  samples over the closed interval from \<open>start\<close> to \<open>stop\<close>; a negative \<open>num\<close> raises
  \<open>ValueError\<close>, \<open>num = 1\<close> gives the single sample \<open>start\<close>. Sample \<open>i\<close> is
  \<open>i * step + start\<close> with \<open>step = (stop - start) / (num - 1)\<close>.
\<close>

definition np_linspace :: "real \<Rightarrow> real \<Rightarrow> int \<Rightarrow> py_error + real list" where
  "np_linspace start stop num =
     (if num < 0 then Inl ValueError
      else if num = 1 then Inr [start]
      else Inr (map (\<lambda>i. real_of_int i * ((stop - start) / real_of_int (num - 1)) + start)
                  [0..num - 1]))"

text \<open>\<open>numpy.zeros(n)\<close>: \<open>n\<close> zeros; a negative \<open>n\<close> raises \<open>ValueError\<close>.\<close>

definition np_zeros :: "int \<Rightarrow> py_error + real list" where
  "np_zeros n = (if n < 0 then Inl ValueError else Inr (replicate (nat n) 0))"

text \<open>
  The result object of \<open>scipy.integrate.solve_ivp\<close>, with the attributes the source and
  its callers read: the times \<open>sol.t\<close>, the values \<open>sol.y\<close> (one row per component of
  the state, one column per time) and the flag \<open>sol.success\<close>, which is false when the
  integration stopped before the end of the span.
\<close>

record OdeResult =
  sol_t :: "real list"
  sol_y :: "real list list"
  sol_success :: bool

text \<open>
  \<open>solve_ivp\<close> itself is external to the repository. It is a parameter of the model: any
  function of the four arguments the source passes (\<open>fun\<close>, \<open>t_span\<close>, \<open>y0\<close>,
  \<open>t_eval\<close>) that raises or returns a result object. As a function it returns the same
  outcome for the same arguments.
\<close>

type_synonym rhs_fun = "real \<Rightarrow> real list \<Rightarrow> py_error + real list"

type_synonym integrator =
  "rhs_fun \<Rightarrow> real \<times> real \<Rightarrow> real list \<Rightarrow> real list \<Rightarrow> py_error + OdeResult"

section \<open>Solver driver\<close>

text \<open>
  The attribute \<open>self.sol\<close> holds an array of zeros first and the integrator's result
  afterwards.
\<close>

datatype sol_attr = Zeros "real list" | Result OdeResult

text \<open>
  The attributes of a \<open>Solution\<close> object. \<open>y0\<close> and \<open>sol\<close> do not exist before \<open>solver\<close>
  has assigned them (\<open>None\<close>).
\<close>

record Solution =
  model :: Model
  protocol :: Protocol
  t_eval :: "real list"
  y0 :: "real list option"
  sol :: "sol_attr option"

text \<open>
  \<open>Solution.solver\<close>. It returns what the call returns or raises, together with the
  object as the call leaves it.
\<close>

definition solver :: "integrator \<Rightarrow> Solution \<Rightarrow> (py_error + OdeResult) \<times> Solution" where
  "solver solve_ivp self =
     (let (step_func, n) =
            (if subcutaneous (protocol self)
             then (rhs_subcutaneous (model self) (protocol self), size_m (model self) + 1)
             else (rhs_intravenous (model self) (protocol self), size_m (model self)))
      in case np_zeros n of
           Inl e \<Rightarrow> (Inl e, self)
         | Inr zeros \<Rightarrow>
             let self = self\<lparr>y0 := Some zeros, sol := Some (Zeros zeros)\<rparr> in
             (case index_py (t_eval self) 0 of
                Inl e \<Rightarrow> (Inl e, self)
              | Inr t_first \<Rightarrow>
                  (case index_py (t_eval self) (- 1) of
                     Inl e \<Rightarrow> (Inl e, self)
                   | Inr t_last \<Rightarrow>
                       (case solve_ivp step_func (t_first, t_last) zeros (t_eval self) of
                          Inl e \<Rightarrow> (Inl e, self)
                        | Inr sol' \<Rightarrow> (Inr sol', self\<lparr>sol := Some (Result sol')\<rparr>)))))"

text \<open>
  \<open>Solution.__init__\<close>: the constructor returns the object, or raises what \<open>linspace\<close>
  or \<open>solver\<close> raises.
\<close>

definition Solution_init ::
  "integrator \<Rightarrow> Model \<Rightarrow> Protocol \<Rightarrow> real \<Rightarrow> int \<Rightarrow> py_error + Solution" where
  "Solution_init solve_ivp m p tmax nsteps =
     (case np_linspace 0 tmax nsteps of
        Inl e \<Rightarrow> Inl e
      | Inr grid \<Rightarrow>
          (case solver solve_ivp \<lparr>model = m, protocol = p, t_eval = grid, y0 = None, sol = None\<rparr> of
             (Inl e, self) \<Rightarrow> Inl e
           | (Inr r, self) \<Rightarrow> Inr self))"

text \<open>
  \<open>Solution.generate_plot\<close>. Rendering is not modelled: the figure is the list of
  curves drawn on it, each the times \<open>sol.t\<close> with one row of \<open>sol.y\<close>, in drawing order
  (\<open>separate\<close> only chooses between one chart and one chart per curve).
\<close>

type_synonym curve = "real list \<times> real list"

fun plot_peripherals :: "OdeResult \<Rightarrow> int list \<Rightarrow> curve list \<Rightarrow> py_error + curve list" where
  "plot_peripherals r [] fig = Inr fig"
| "plot_peripherals r (i # rest) fig =
     bind_py (index_py (sol_y r) (i + 1)) (\<lambda>row.
       plot_peripherals r rest (fig @ [(sol_t r, row)]))"

definition draw_plot :: "bool \<Rightarrow> Model \<Rightarrow> OdeResult \<Rightarrow> py_error + curve list" where
  "draw_plot separate m r =
     (let n = size_m m in
      bind_py (index_py (sol_y r) 0) (\<lambda>row.
        plot_peripherals r [0..n - 1 - 1] [(sol_t r, row)]))"

definition generate_plot ::
  "integrator \<Rightarrow> bool \<Rightarrow> Solution \<Rightarrow> (py_error + curve list) \<times> Solution" where
  "generate_plot solve_ivp separate self =
     (case solver solve_ivp self of
        (Inl e, self) \<Rightarrow> (Inl e, self)
      | (Inr r, self) \<Rightarrow> (draw_plot separate (model self) r, self))"

section \<open>Auxiliary notions for the statements\<close>

text \<open>
  The flux that one iteration of the intravenous loop appends for the value \<open>c\<close> of the
  loop variable, when every read succeeds; likewise for the subcutaneous loop.
\<close>

definition flux_intravenous :: "Model \<Rightarrow> real list \<Rightarrow> int \<Rightarrow> real" where
  "flux_intravenous m state c =
     Qps m ! nat (c - 1) * (state ! 0 / Vc m - state ! nat c / Vps m ! nat (c - 1))"

definition flux_subcutaneous :: "Model \<Rightarrow> real list \<Rightarrow> int \<Rightarrow> real" where
  "flux_subcutaneous m state c =
     Qps m ! nat (c - 1) * (state ! 1 / Vc m - state ! nat (c + 1) / Vps m ! nat (c - 1))"

text \<open>
  The reads of one loop iteration are in range and its divisor \<open>V_pi\<close> is not zero,
  for a state of \<open>n\<close> entries read at index \<open>c\<close>.
\<close>

definition comp_ok :: "Model \<Rightarrow> nat \<Rightarrow> int \<Rightarrow> bool" where
  "comp_ok m n c \<longleftrightarrow> 1 \<le> c \<and> nat c \<le> length (Qps m) \<and> nat c \<le> length (Vps m) \<and> nat c < n
     \<and> Vps m ! nat (c - 1) \<noteq> 0"

text \<open>The right-hand side and the length of the state that \<open>solver\<close> selects.\<close>

definition step_func :: "Model \<Rightarrow> Protocol \<Rightarrow> rhs_fun" where
  "step_func m p = (if subcutaneous p then rhs_subcutaneous m p else rhs_intravenous m p)"

definition state_size :: "Model \<Rightarrow> Protocol \<Rightarrow> int" where
  "state_size m p = (if subcutaneous p then size_m m + 1 else size_m m)"


section \<open>Concrete inputs\<close>

text \<open>
  Models with two peripheral compartments (with and without clearance) and with none,
  and a model with a zero central volume and peripheral arrays of different lengths.
\<close>

definition model_three :: Model where
  "model_three = \<lparr>size_m = 3, Vc = 2, CL = 1, Qps = [1, 3], Vps = [4, 5]\<rparr>"


definition model_one :: Model where
  "model_one = \<lparr>size_m = 1, Vc = 2, CL = 3, Qps = [], Vps = []\<rparr>"

definition model_invalid :: Model where
  "model_invalid = \<lparr>size_m = 2, Vc = 0, CL = 1, Qps = [1, 2], Vps = []\<rparr>"

text \<open>A constant intravenous infusion, the same dose into a depot, and a depot without dosing.\<close>

definition protocol_infusion :: Protocol where
  "protocol_infusion = \<lparr>subcutaneous = False, dose_time_function = (\<lambda>t. 7), k_a = 0\<rparr>"

definition protocol_injection :: Protocol where
  "protocol_injection = \<lparr>subcutaneous = True, dose_time_function = (\<lambda>t. 7), k_a = 2\<rparr>"

definition protocol_no_dose :: Protocol where
  "protocol_no_dose = \<lparr>subcutaneous = True, dose_time_function = (\<lambda>t. 0), k_a = 2\<rparr>"

text \<open>
  Stand-ins for the integrator, to exercise the driver on concrete inputs: one that
  raises as soon as it is called, one that reports the initial state at every requested
  time, and one that gives up at the start of the span.
\<close>

definition integrator_raising :: integrator where
  "integrator_raising fn t_span z ts = Inl (OtherError ''integrator called'')"

definition integrator_constant :: integrator where
  "integrator_constant fn t_span z ts =
     Inr \<lparr>sol_t = ts, sol_y = map (\<lambda>v. map (\<lambda>t. v) ts) z, sol_success = True\<rparr>"

definition integrator_failing :: integrator where
  "integrator_failing fn t_span z ts =
     Inr \<lparr>sol_t = take 1 ts, sol_y = map (\<lambda>v. [v]) z, sol_success = False\<rparr>"

text \<open>The object constructed with the constant stand-in integrator on the grid \<open>[0, 1]\<close>.\<close>

definition result_example :: OdeResult where
  "result_example = \<lparr>sol_t = [0, 1], sol_y = [[0, 0], [0, 0], [0, 0]], sol_success = True\<rparr>"

definition solution_example :: Solution where
  "solution_example =
     \<lparr>model = model_three, protocol = protocol_infusion, t_eval = [0, 1],
      y0 = Some [0, 0, 0], sol = Some (Result result_example)\<rparr>"

section \<open>The flux engine in double precision\<close>

text \<open>
  Rounding of a real number to the nearest IEEE binary64 value, ties to even, for
  results within the normal range: 53 significant bits. Overflow, subnormal results and
  non-finite values are not modelled. \<open>binade x\<close> is the exponent \<open>e\<close> with
  \<open>2^e \<le> |x| < 2^(e+1)\<close>.
\<close>

fun bit_length :: "nat \<Rightarrow> nat" where
  "bit_length n = (if n = 0 then 0 else Suc (bit_length (n div 2)))"

definition pow2 :: "int \<Rightarrow> real" where
  "pow2 e = (if 0 \<le> e then 2 ^ nat e else 1 / 2 ^ nat (- e))"

definition binade :: "real \<Rightarrow> int" where
  "binade x =
     (if 1 \<le> \<bar>x\<bar> then int (bit_length (nat \<lfloor>\<bar>x\<bar>\<rfloor>)) - 1
      else - int (bit_length (nat (\<lceil>1 / \<bar>x\<bar>\<rceil> - 1))))"

definition round_half_even :: "real \<Rightarrow> int" where
  "round_half_even q =
     (let f = \<lfloor>q\<rfloor>; r = q - of_int f
      in if r < 1 / 2 then f else if 1 / 2 < r then f + 1 else if even f then f else f + 1)"

definition round_double :: "real \<Rightarrow> real" where
  "round_double x =
     (if x = 0 then 0
      else let ulp = pow2 (binade x - 52) in of_int (round_half_even (x / ulp)) * ulp)"

text \<open>
  The two right-hand sides again, with the result of every arithmetic operation passed
  through a rounding function \<open>rnd\<close>, in the order in which the source evaluates them. With
  \<open>round_double\<close> they compute as the code does on double-precision numbers; with the
  identity they are \<open>rhs_intravenous\<close> and \<open>rhs_subcutaneous\<close>.
\<close>

definition truediv_fl :: "(real \<Rightarrow> real) \<Rightarrow> real \<Rightarrow> real \<Rightarrow> py_error + real" where
  "truediv_fl rnd a b = (if b = 0 then Inl ZeroDivisionError else Inr (rnd (a / b)))"

fun flux_loop_intravenous_fl ::
  "(real \<Rightarrow> real) \<Rightarrow> Model \<Rightarrow> real list \<Rightarrow> int list \<Rightarrow> real list \<times> real
     \<Rightarrow> py_error + real list \<times> real"
where
  "flux_loop_intravenous_fl rnd m state [] (dq_dt, flux_sum) = Inr (dq_dt, flux_sum)"
| "flux_loop_intravenous_fl rnd m state (cmp # comps) (dq_dt, flux_sum) =
     bind_py (index_py (Qps m) (cmp - 1)) (\<lambda>Q_pi.
     bind_py (index_py (Vps m) (cmp - 1)) (\<lambda>V_pi.
     bind_py (index_py state 0) (\<lambda>s0.
     bind_py (truediv_fl rnd s0 (Vc m)) (\<lambda>c0.
     bind_py (index_py state cmp) (\<lambda>sc.
     bind_py (truediv_fl rnd sc V_pi) (\<lambda>cp.
       let flux = rnd (Q_pi * rnd (c0 - cp))
       in flux_loop_intravenous_fl rnd m state comps
            (dq_dt @ [flux], rnd (flux_sum + flux))))))))"

definition rhs_intravenous_fl ::
  "(real \<Rightarrow> real) \<Rightarrow> Model \<Rightarrow> Protocol \<Rightarrow> real \<Rightarrow> real list \<Rightarrow> py_error + real list" where
  "rhs_intravenous_fl rnd m p t y =
     (let state = y in
      bind_py (index_py state 0) (\<lambda>s0.
      bind_py (truediv_fl rnd s0 (Vc m)) (\<lambda>c.
        let cleared = rnd (c * CL m) in
        bind_py (flux_loop_intravenous_fl rnd m state [1..size_m m - 1] ([0], 0))
          (\<lambda>(dq_dt, flux_sum).
            Inr (dq_dt[0 := rnd (rnd (dose_time_function p t - cleared) - flux_sum)])))))"

fun flux_loop_subcutaneous_fl ::
  "(real \<Rightarrow> real) \<Rightarrow> Model \<Rightarrow> real list \<Rightarrow> int list \<Rightarrow> real list \<times> real
     \<Rightarrow> py_error + real list \<times> real"
where
  "flux_loop_subcutaneous_fl rnd m state [] (dq_dt, flux_sum) = Inr (dq_dt, flux_sum)"
| "flux_loop_subcutaneous_fl rnd m state (cmp # comps) (dq_dt, flux_sum) =
     bind_py (index_py (Qps m) (cmp - 1)) (\<lambda>Q_pi.
     bind_py (index_py (Vps m) (cmp - 1)) (\<lambda>V_pi.
     bind_py (index_py state 1) (\<lambda>s1.
     bind_py (truediv_fl rnd s1 (Vc m)) (\<lambda>c1.
     bind_py (index_py state (cmp + 1)) (\<lambda>sc.
     bind_py (truediv_fl rnd sc V_pi) (\<lambda>cp.
       let flux = rnd (Q_pi * rnd (c1 - cp))
       in flux_loop_subcutaneous_fl rnd m state comps
            (dq_dt @ [flux], rnd (flux_sum + flux))))))))"

definition rhs_subcutaneous_fl ::
  "(real \<Rightarrow> real) \<Rightarrow> Model \<Rightarrow> Protocol \<Rightarrow> real \<Rightarrow> real list \<Rightarrow> py_error + real list" where
  "rhs_subcutaneous_fl rnd m p t y =
     (let state = y in
      bind_py (index_py state 1) (\<lambda>s1.
      bind_py (truediv_fl rnd s1 (Vc m)) (\<lambda>c.
        let cleared = rnd (c * CL m);
            dq_dt = [0, 0];
            dq0_dt = dose_time_function p t in
        bind_py (index_py state 0) (\<lambda>s0.
          let dq0_dt = rnd (dq0_dt - rnd (k_a p * s0));
              dq_dt = dq_dt[0 := dq0_dt] in
          bind_py (flux_loop_subcutaneous_fl rnd m state [1..size_m m - 1] (dq_dt, 0))
            (\<lambda>(dq_dt, flux_sum).
              bind_py (index_py state 0) (\<lambda>s0.
                Inr (dq_dt[1 := rnd (rnd (rnd (k_a p * s0) - cleared) - flux_sum)])))))))"

text \<open>
  A model whose central volume is not a power of two, with one peripheral compartment
  and no clearance, and a unit dose given intravenously or into a depot.
\<close>

definition model_thirds :: Model where
  "model_thirds = \<lparr>size_m = 2, Vc = 3, CL = 0, Qps = [1], Vps = [1]\<rparr>"


definition protocol_unit_depot :: Protocol where
  "protocol_unit_depot = \<lparr>subcutaneous = True, dose_time_function = (\<lambda>t. 1), k_a = 1\<rparr>"



section \<open>Basic facts about the primitives\<close>

lemma bind_py_Inl [simp]: "bind_py (Inl e) f = Inl e"
  by (simp add: bind_py_def)

lemma bind_py_Inr [simp]: "bind_py (Inr v) f = f v"
  by (simp add: bind_py_def)

lemma truediv_nonzero: "b \<noteq> 0 \<Longrightarrow> truediv a b = Inr (a / b)"
  by (simp add: truediv_def)

lemma sum_list_map_upto:
  "sum_list (map f [1..int n - 1]) = (\<Sum>i = 1..<n. f (int i))"
proof (induction n)
  case 0 show ?case by simp
next
  case (Suc n)
  show ?case
  proof (cases "n = 0")
    case True then show ?thesis by simp
  next
    case False
    then have "[1..int (Suc n) - 1] = [1..int n - 1] @ [int n]"
      using upto_rec2[of 1 "int n"] by simp
    with Suc False show ?thesis by simp
  qed
qed

section \<open>The intravenous right-hand side\<close>

lemma flux_loop_intravenous_total:
  assumes "Vc m \<noteq> 0" and "\<forall>c\<in>set comps. comp_ok m (length state) c"
  shows "flux_loop_intravenous m state comps (dq, fs) =
           Inr (dq @ map (flux_intravenous m state) comps,
                fs + sum_list (map (flux_intravenous m state) comps))"
  using assms(2)
proof (induction comps arbitrary: dq fs)
  case Nil
  show ?case by simp
next
  case (Cons c comps)
  from Cons.prems have c: "comp_ok m (length state) c" and rest: "\<forall>c\<in>set comps. comp_ok m (length state) c"
    by simp_all
  from c have q: "index_py (Qps m) (c - 1) = Inr (Qps m ! nat (c - 1))"
    and v: "index_py (Vps m) (c - 1) = Inr (Vps m ! nat (c - 1))"
    and s0: "index_py state 0 = Inr (state ! 0)"
    and sc: "index_py state c = Inr (state ! nat c)"
    and nz: "Vps m ! nat (c - 1) \<noteq> 0"
    by (auto simp: comp_ok_def index_py_def)
  show ?case
    by (simp add: q v s0 sc truediv_nonzero nz assms(1) Cons.IH[OF rest] flux_intravenous_def Let_def add.assoc)
qed

lemma comp_ok_wellformed:
  assumes "length (Qps m) = nat (size_m m - 1)" and "length (Vps m) = nat (size_m m - 1)"
    and "\<forall>v\<in>set (Vps m). v \<noteq> 0" and "nat (size_m m) \<le> n"
  shows "\<forall>c\<in>set [1..size_m m - 1]. comp_ok m n c"
proof
  fix c assume "c \<in> set [1..size_m m - 1]"
  then have c: "1 \<le> c" "c \<le> size_m m - 1" by simp_all
  then have "nat (c - 1) < length (Vps m)" using assms(2) by simp
  then have "Vps m ! nat (c - 1) \<in> set (Vps m)" by (rule nth_mem)
  with assms(3) have "Vps m ! nat (c - 1) \<noteq> 0" by blast
  moreover from c assms(4) have "nat c \<le> nat (size_m m - 1)" and "nat c < n" by linarith+
  ultimately show "comp_ok m n c" using c assms(1,2) by (simp add: comp_ok_def)
qed

lemma rhs_intravenous_value:
  assumes "Vc m \<noteq> 0" and "y \<noteq> []" and "\<forall>c\<in>set [1..size_m m - 1]. comp_ok m (length y) c"
  shows "rhs_intravenous m p t y =
    Inr ((dose_time_function p t - y ! 0 / Vc m * CL m
            - sum_list (map (flux_intravenous m y) [1..size_m m - 1]))
         # map (flux_intravenous m y) [1..size_m m - 1])"
proof -
  from assms(2) have s0: "index_py y 0 = Inr (y ! 0)" by (simp add: index_py_def)
  show ?thesis
    by (simp add: rhs_intravenous_def s0 truediv_nonzero assms(1)
        flux_loop_intravenous_total[OF assms(1) assms(3)])
qed

text \<open>
  Claim C1. For a model with \<open>Vc > 0\<close>, \<open>CL \<ge> 0\<close>, positive peripheral volumes, \<open>Qps\<close> and
  \<open>Vps\<close> of length \<open>size - 1\<close>, and a non-negative state of length \<open>size\<close>, the
  intravenous right-hand side returns a vector of the same length: entry \<open>i\<close>, for
  \<open>1 \<le> i < size\<close>, is \<open>Qps[i-1] * (state[0]/Vc - state[i]/Vps[i-1])\<close>, and entry \<open>0\<close> is
  \<open>dose(t) - state[0]/Vc*CL\<close> minus the sum of the entries \<open>1 .. size-1\<close>.
\<close>

theorem rhs_intravenous_entries:
  assumes "0 < Vc m" and "0 \<le> CL m" and "1 \<le> size_m m"
    and "length (Qps m) = nat (size_m m - 1)" and "length (Vps m) = nat (size_m m - 1)"
    and "\<forall>v\<in>set (Vps m). 0 < v"
    and "length y = nat (size_m m)" and "\<forall>x\<in>set y. 0 \<le> x"
  shows "\<exists>d. rhs_intravenous m p t y = Inr d \<and> length d = length y
      \<and> (\<forall>i. 1 \<le> i \<and> i < length y \<longrightarrow>
            d ! i = Qps m ! (i - 1) * (y ! 0 / Vc m - y ! i / Vps m ! (i - 1)))
      \<and> d ! 0 = dose_time_function p t - y ! 0 / Vc m * CL m - (\<Sum>i = 1..<length y. d ! i)"
proof -
  let ?n = "length y"
  let ?f = "flux_intravenous m y"
  let ?d = "(dose_time_function p t - y ! 0 / Vc m * CL m - sum_list (map ?f [1..size_m m - 1]))
         # map ?f [1..size_m m - 1]"
  from assms(3,7) have sz: "size_m m = int ?n" and ne: "y \<noteq> []" by auto
  from assms(6) have nz: "\<forall>v\<in>set (Vps m). v \<noteq> 0" by auto
  have ok: "\<forall>c\<in>set [1..size_m m - 1]. comp_ok m (length y) c"
    using comp_ok_wellformed[OF assms(4) assms(5) nz] assms(7) by simp
  have val: "rhs_intravenous m p t y = Inr ?d"
    using assms(1) ne ok by (intro rhs_intravenous_value) auto
  have len: "length ?d = ?n" using assms(3,7) by simp
  have nthf: "?d ! i = ?f (int i)" if "1 \<le> i" "i < ?n" for i
  proof -
    from that obtain j where i: "i = Suc j" by (cases i) auto
    with that have "j < length [1..size_m m - 1]" by (simp add: sz)
    moreover have "[1..size_m m - 1] ! j = int i" using that i by (simp add: sz)
    ultimately show ?thesis by (simp add: i)
  qed
  have nth: "?d ! i = Qps m ! (i - 1) * (y ! 0 / Vc m - y ! i / Vps m ! (i - 1))"
    if "1 \<le> i" "i < ?n" for i
  proof -
    have "nat (int i) = i" and "nat (int i - 1) = i - 1" by simp_all
    with nthf[OF that] show ?thesis by (simp only: flux_intravenous_def)
  qed
  have "(\<Sum>i = 1..<?n. ?d ! i) = (\<Sum>i = 1..<?n. ?f (int i))"
  proof (rule sum.cong[OF refl])
    fix x assume "x \<in> {1..<?n}"
    then have "1 \<le> x" and "x < ?n" by simp_all
    then show "?d ! x = ?f (int x)" by (rule nthf)
  qed
  also have "\<dots> = sum_list (map ?f [1..size_m m - 1])"
    by (simp add: sz sum_list_map_upto)
  finally have sm: "(\<Sum>i = 1..<?n. ?d ! i) = sum_list (map ?f [1..size_m m - 1])" .
  have d0: "?d ! 0 = dose_time_function p t - y ! 0 / Vc m * CL m - (\<Sum>i = 1..<?n. ?d ! i)"
    unfolding sm by simp
  from val len nth d0 show ?thesis by blast
qed

text \<open>The definition evaluated on a three-compartment model.\<close>

lemma rhs_intravenous_example:
  "rhs_intravenous model_three protocol_infusion 0 [8, 4, 10] = Inr [- 6, 3, 6]"
  by (simp add: rhs_intravenous_def model_three_def protocol_infusion_def index_py_def
      truediv_def upto.simps)

theorem rhs_intravenous_entries_witness:
  "\<exists>d. rhs_intravenous model_three protocol_infusion 0 [8, 4, 10] = Inr d \<and> length d = 3
      \<and> d ! 1 = 3 \<and> d ! 2 = 6 \<and> d ! 0 = - 6"
proof -
  let ?y = "[8, 4, 10] :: real list"
  have "\<exists>d. rhs_intravenous model_three protocol_infusion 0 ?y = Inr d \<and> length d = length ?y
      \<and> (\<forall>i. 1 \<le> i \<and> i < length ?y \<longrightarrow>
            d ! i = Qps model_three ! (i - 1)
              * (?y ! 0 / Vc model_three - ?y ! i / Vps model_three ! (i - 1)))
      \<and> d ! 0 = dose_time_function protocol_infusion 0 - ?y ! 0 / Vc model_three * CL model_three
              - (\<Sum>i = 1..<length ?y. d ! i)"
    by (rule rhs_intravenous_entries) (simp_all add: model_three_def)
  then obtain d where val: "rhs_intravenous model_three protocol_infusion 0 ?y = Inr d"
    and len: "length d = length ?y"
    and nth: "\<forall>i. 1 \<le> i \<and> i < length ?y \<longrightarrow> d ! i = Qps model_three ! (i - 1)
              * (?y ! 0 / Vc model_three - ?y ! i / Vps model_three ! (i - 1))"
    and d0: "d ! 0 = dose_time_function protocol_infusion 0 - ?y ! 0 / Vc model_three * CL model_three
              - (\<Sum>i = 1..<length ?y. d ! i)"
    by blast
  have d1: "d ! 1 = 3" using nth[rule_format, of 1] by (simp add: model_three_def)
  have d2: "d ! 2 = 6" using nth[rule_format, of 2] by (simp add: model_three_def)
  have "{1..<length ?y} = {1, 2}" by auto
  then have "(\<Sum>i = 1..<length ?y. d ! i) = d ! 1 + d ! 2" by simp
  with d0 d1 d2 have "d ! 0 = - 6" by (simp add: model_three_def protocol_infusion_def)
  with val len d1 d2 show ?thesis by simp
qed

section \<open>The subcutaneous right-hand side\<close>

lemma flux_loop_subcutaneous_total:
  assumes "Vc m \<noteq> 0" and "2 \<le> length state"
    and "\<forall>c\<in>set comps. comp_ok m (length state - 1) c"
  shows "flux_loop_subcutaneous m state comps (dq, fs) =
           Inr (dq @ map (flux_subcutaneous m state) comps,
                fs + sum_list (map (flux_subcutaneous m state) comps))"
  using assms(3)
proof (induction comps arbitrary: dq fs)
  case Nil
  show ?case by simp
next
  case (Cons c comps)
  from Cons.prems have c: "comp_ok m (length state - 1) c"
    and rest: "\<forall>c\<in>set comps. comp_ok m (length state - 1) c"
    by simp_all
  from c assms(2) have q: "index_py (Qps m) (c - 1) = Inr (Qps m ! nat (c - 1))"
    and v: "index_py (Vps m) (c - 1) = Inr (Vps m ! nat (c - 1))"
    and s1: "index_py state 1 = Inr (state ! 1)"
    and sc: "index_py state (c + 1) = Inr (state ! nat (c + 1))"
    and nz: "Vps m ! nat (c - 1) \<noteq> 0"
    by (auto simp: comp_ok_def index_py_def)
  show ?case
    by (simp add: q v s1 sc truediv_nonzero nz assms(1) Cons.IH[OF rest] flux_subcutaneous_def
        Let_def add.assoc)
qed

lemma rhs_subcutaneous_value:
  assumes "Vc m \<noteq> 0" and "2 \<le> length y"
    and "\<forall>c\<in>set [1..size_m m - 1]. comp_ok m (length y - 1) c"
  shows "rhs_subcutaneous m p t y =
    Inr ((dose_time_function p t - k_a p * y ! 0)
         # (k_a p * y ! 0 - y ! 1 / Vc m * CL m
              - sum_list (map (flux_subcutaneous m y) [1..size_m m - 1]))
         # map (flux_subcutaneous m y) [1..size_m m - 1])"
proof -
  from assms(2) have s0: "index_py y 0 = Inr (y ! 0)" and s1: "index_py y 1 = Inr (y ! 1)"
    by (auto simp: index_py_def)
  show ?thesis
    by (simp add: rhs_subcutaneous_def s0 s1 truediv_nonzero assms(1)
        flux_loop_subcutaneous_total[OF assms])
qed

text \<open>
  Claim C2. For a model as in C1, an absorption constant \<open>k_a > 0\<close> and a non-negative
  state of length \<open>size + 1\<close> with the depot first, the subcutaneous right-hand side
  returns a vector of length \<open>size + 1\<close>: entry \<open>0\<close> is \<open>dose(t) - k_a*state[0]\<close>, entry
  \<open>i+1\<close>, for \<open>1 \<le> i < size\<close>, is \<open>Qps[i-1] * (state[1]/Vc - state[i+1]/Vps[i-1])\<close>, and
  entry \<open>1\<close> is \<open>k_a*state[0] - state[1]/Vc*CL\<close> minus the sum of the entries \<open>2 .. size\<close>.
\<close>

theorem rhs_subcutaneous_entries:
  assumes "0 < Vc m" and "0 \<le> CL m" and "1 \<le> size_m m"
    and "length (Qps m) = nat (size_m m - 1)" and "length (Vps m) = nat (size_m m - 1)"
    and "\<forall>v\<in>set (Vps m). 0 < v" and "0 < k_a p"
    and "length y = nat (size_m m + 1)" and "\<forall>x\<in>set y. 0 \<le> x"
  shows "\<exists>d. rhs_subcutaneous m p t y = Inr d \<and> length d = nat (size_m m + 1)
      \<and> d ! 0 = dose_time_function p t - k_a p * y ! 0
      \<and> (\<forall>i. 1 \<le> i \<and> int i < size_m m \<longrightarrow>
            d ! (i + 1) = Qps m ! (i - 1) * (y ! 1 / Vc m - y ! (i + 1) / Vps m ! (i - 1)))
      \<and> d ! 1 = k_a p * y ! 0 - y ! 1 / Vc m * CL m - (\<Sum>i = 1..<nat (size_m m). d ! (i + 1))"
proof -
  obtain n where sz: "size_m m = int n" and n1: "1 \<le> n"
  proof
    from assms(3) show "size_m m = int (nat (size_m m))" by simp
    from assms(3) show "1 \<le> nat (size_m m)" by simp
  qed
  let ?f = "flux_subcutaneous m y"
  let ?fl = "map ?f [1..size_m m - 1]"
  let ?d = "(dose_time_function p t - k_a p * y ! 0)
         # (k_a p * y ! 0 - y ! 1 / Vc m * CL m - sum_list ?fl) # ?fl"
  from assms(8) n1 have len2: "2 \<le> length y" and ly: "length y - 1 = n"
    by (simp_all add: sz nat_add_distrib)
  from assms(6) have nz: "\<forall>v\<in>set (Vps m). v \<noteq> 0" by auto
  have ok: "\<forall>c\<in>set [1..size_m m - 1]. comp_ok m (length y - 1) c"
    using comp_ok_wellformed[OF assms(4) assms(5) nz, of "length y - 1"] ly by (simp add: sz)
  have val: "rhs_subcutaneous m p t y = Inr ?d"
  proof (rule rhs_subcutaneous_value[OF _ len2 ok])
    from assms(1) show "Vc m \<noteq> 0" by simp
  qed
  have len: "length ?d = nat (size_m m + 1)" using n1 by (simp add: sz nat_add_distrib)
  have nthf: "?d ! (i + 1) = ?f (int i)" if "1 \<le> i" "i < n" for i
  proof -
    from that obtain j where i: "i = Suc j" by (cases i) auto
    with that have "j < length [1..size_m m - 1]" by (simp add: sz)
    moreover have "[1..size_m m - 1] ! j = int i" using that i by (simp add: sz)
    ultimately show ?thesis by (simp add: i)
  qed
  have nth: "?d ! (i + 1) = Qps m ! (i - 1) * (y ! 1 / Vc m - y ! (i + 1) / Vps m ! (i - 1))"
    if "1 \<le> i" "int i < size_m m" for i
  proof -
    have "nat (int i + 1) = i + 1" and "nat (int i - 1) = i - 1" by simp_all
    moreover from that have "i < n" by (simp add: sz)
    ultimately show ?thesis using nthf[OF that(1)] by (simp only: flux_subcutaneous_def)
  qed
  have "(\<Sum>i = 1..<n. ?d ! (i + 1)) = (\<Sum>i = 1..<n. ?f (int i))"
  proof (rule sum.cong[OF refl])
    fix x assume "x \<in> {1..<n}"
    then have "1 \<le> x" and "x < n" by simp_all
    then show "?d ! (x + 1) = ?f (int x)" by (rule nthf)
  qed
  also have "\<dots> = sum_list ?fl"
    using sum_list_map_upto[of ?f n] by (simp add: sz)
  finally have sm: "(\<Sum>i = 1..<nat (size_m m). ?d ! (i + 1)) = sum_list ?fl"
    by (simp add: sz)
  have d1: "?d ! 1 = k_a p * y ! 0 - y ! 1 / Vc m * CL m
      - (\<Sum>i = 1..<nat (size_m m). ?d ! (i + 1))"
    unfolding sm by simp
  have d0: "?d ! 0 = dose_time_function p t - k_a p * y ! 0" by simp
  from val len d0 nth d1 show ?thesis by blast
qed

text \<open>The definition evaluated on the same model with a depot.\<close>

lemma rhs_subcutaneous_example:
  "rhs_subcutaneous model_three protocol_injection 0 [5, 8, 4, 10] = Inr [- 3, - 3, 3, 6]"
  by (simp add: rhs_subcutaneous_def model_three_def protocol_injection_def index_py_def
      truediv_def upto.simps)

theorem rhs_subcutaneous_entries_witness:
  "\<exists>d. rhs_subcutaneous model_three protocol_injection 0 [5, 8, 4, 10] = Inr d \<and> length d = 4
      \<and> d ! 0 = - 3 \<and> d ! 2 = 3 \<and> d ! 3 = 6 \<and> d ! 1 = - 3"
proof -
  let ?y = "[5, 8, 4, 10] :: real list"
  let ?m = model_three and ?p = protocol_injection
  have "\<exists>d. rhs_subcutaneous ?m ?p 0 ?y = Inr d \<and> length d = nat (size_m ?m + 1)
      \<and> d ! 0 = dose_time_function ?p 0 - k_a ?p * ?y ! 0
      \<and> (\<forall>i. 1 \<le> i \<and> int i < size_m ?m \<longrightarrow>
            d ! (i + 1) = Qps ?m ! (i - 1) * (?y ! 1 / Vc ?m - ?y ! (i + 1) / Vps ?m ! (i - 1)))
      \<and> d ! 1 = k_a ?p * ?y ! 0 - ?y ! 1 / Vc ?m * CL ?m - (\<Sum>i = 1..<nat (size_m ?m). d ! (i + 1))"
    by (rule rhs_subcutaneous_entries) (simp_all add: model_three_def protocol_injection_def)
  then obtain d where val: "rhs_subcutaneous ?m ?p 0 ?y = Inr d"
    and len: "length d = nat (size_m ?m + 1)"
    and d0: "d ! 0 = dose_time_function ?p 0 - k_a ?p * ?y ! 0"
    and nth: "\<forall>i. 1 \<le> i \<and> int i < size_m ?m \<longrightarrow>
            d ! (i + 1) = Qps ?m ! (i - 1) * (?y ! 1 / Vc ?m - ?y ! (i + 1) / Vps ?m ! (i - 1))"
    and d1: "d ! 1 = k_a ?p * ?y ! 0 - ?y ! 1 / Vc ?m * CL ?m
               - (\<Sum>i = 1..<nat (size_m ?m). d ! (i + 1))"
    by blast
  have d2: "d ! 2 = 3" using nth[rule_format, of 1]
    by (simp add: model_three_def numeral_2_eq_2)
  have d3: "d ! 3 = 6" using nth[rule_format, of 2]
    by (simp add: model_three_def numeral_3_eq_3)
  have "{1..<nat (size_m ?m)} = {1, 2}" by (auto simp: model_three_def)
  then have "(\<Sum>i = 1..<nat (size_m ?m). d ! (i + 1)) = d ! (1 + 1) + d ! (2 + 1)" by simp
  also have "\<dots> = d ! 2 + d ! 3" by (simp add: numeral_2_eq_2 numeral_3_eq_3)
  finally have "(\<Sum>i = 1..<nat (size_m ?m). d ! (i + 1)) = d ! 2 + d ! 3" .
  with d1 d2 d3 have "d ! 1 = - 3" by (simp add: model_three_def protocol_injection_def)
  moreover from d0 have "d ! 0 = - 3" by (simp add: protocol_injection_def)
  moreover from len have "length d = 4" by (simp add: model_three_def)
  ultimately show ?thesis using val d2 d3 by simp
qed

section \<open>What the right-hand sides return, whenever they return\<close>

text \<open>
  Whatever the lengths and values of the inputs: if a loop completes, it has appended a
  list of fluxes to \<open>dq_dt\<close> and added their sum to \<open>flux_sum\<close>.
\<close>

lemma flux_loop_intravenous_Inr:
  "flux_loop_intravenous m state comps (dq, fs) = Inr (dq', fs')
     \<Longrightarrow> \<exists>fl. dq' = dq @ fl \<and> fs' = fs + sum_list fl"
proof (induction comps arbitrary: dq fs)
  case Nil
  then show ?case by simp
next
  case (Cons c comps)
  from Cons.prems obtain flux
    where "flux_loop_intravenous m state comps (dq @ [flux], fs + flux) = Inr (dq', fs')"
    by (auto simp: bind_py_def Let_def split: sum.splits)
  from Cons.IH[OF this] obtain fl where "dq' = (dq @ [flux]) @ fl" and "fs' = fs + flux + sum_list fl"
    by blast
  then have "dq' = dq @ (flux # fl) \<and> fs' = fs + sum_list (flux # fl)" by simp
  then show ?case by blast
qed

lemma flux_loop_subcutaneous_Inr:
  "flux_loop_subcutaneous m state comps (dq, fs) = Inr (dq', fs')
     \<Longrightarrow> \<exists>fl. dq' = dq @ fl \<and> fs' = fs + sum_list fl"
proof (induction comps arbitrary: dq fs)
  case Nil
  then show ?case by simp
next
  case (Cons c comps)
  from Cons.prems obtain flux
    where "flux_loop_subcutaneous m state comps (dq @ [flux], fs + flux) = Inr (dq', fs')"
    by (auto simp: bind_py_def Let_def split: sum.splits)
  from Cons.IH[OF this] obtain fl where "dq' = (dq @ [flux]) @ fl" and "fs' = fs + flux + sum_list fl"
    by blast
  then have "dq' = dq @ (flux # fl) \<and> fs' = fs + sum_list (flux # fl)" by simp
  then show ?case by blast
qed

lemma index_py_0_Inr: "index_py xs 0 = Inr v \<Longrightarrow> v = xs ! 0"
  by (auto simp: index_py_def split: if_splits)

lemma index_py_1_Inr: "index_py xs 1 = Inr v \<Longrightarrow> v = xs ! 1"
  by (auto simp: index_py_def split: if_splits)

lemma truediv_Inr: "truediv a b = Inr c \<Longrightarrow> c = a / b"
  by (auto simp: truediv_def split: if_splits)

lemma rhs_intravenous_Inr:
  assumes "rhs_intravenous m p t y = Inr d"
  shows "\<exists>fl. d = (dose_time_function p t - y ! 0 / Vc m * CL m - sum_list fl) # fl"
proof -
  from assms obtain s0 c dq fs where s0: "index_py y 0 = Inr s0" and c: "truediv s0 (Vc m) = Inr c"
    and loop: "flux_loop_intravenous m y [1..size_m m - 1] ([0], 0) = Inr (dq, fs)"
    and d: "d = dq[0 := dose_time_function p t - c * CL m - fs]"
    by (auto simp: rhs_intravenous_def bind_py_def Let_def split: sum.splits)
  from flux_loop_intravenous_Inr[OF loop] obtain fl where "dq = [0] @ fl" and "fs = sum_list fl"
    by auto
  with d index_py_0_Inr[OF s0] truediv_Inr[OF c] show ?thesis by simp
qed

lemma rhs_subcutaneous_Inr:
  assumes "rhs_subcutaneous m p t y = Inr d"
  shows "\<exists>fl. d = (dose_time_function p t - k_a p * y ! 0)
           # (k_a p * y ! 0 - y ! 1 / Vc m * CL m - sum_list fl) # fl"
proof -
  from assms obtain s1 c s0 dq fs where s1: "index_py y 1 = Inr s1"
    and c: "truediv s1 (Vc m) = Inr c" and s0: "index_py y 0 = Inr s0"
    and loop: "flux_loop_subcutaneous m y [1..size_m m - 1]
                 ([0, 0][0 := dose_time_function p t - k_a p * s0], 0) = Inr (dq, fs)"
    and d: "d = dq[1 := k_a p * s0 - c * CL m - fs]"
    by (auto simp: rhs_subcutaneous_def bind_py_def Let_def split: sum.splits)
  from flux_loop_subcutaneous_Inr[OF loop] obtain fl
    where "dq = [0, 0][0 := dose_time_function p t - k_a p * s0] @ fl" and "fs = sum_list fl"
    by auto
  with d index_py_0_Inr[OF s0] index_py_1_Inr[OF s1] truediv_Inr[OF c] show ?thesis by simp
qed

lemma rhs_intravenous_mass_balance:
  "rhs_intravenous m p t y = Inr d \<Longrightarrow> sum_list d = dose_time_function p t - y ! 0 / Vc m * CL m"
  by (drule rhs_intravenous_Inr) auto

lemma rhs_subcutaneous_mass_balance:
  "rhs_subcutaneous m p t y = Inr d \<Longrightarrow> sum_list d = dose_time_function p t - y ! 1 / Vc m * CL m"
  by (drule rhs_subcutaneous_Inr) auto

lemma rhs_intravenous_returns:
  assumes "Vc m \<noteq> 0" and "1 \<le> size_m m"
    and "length (Qps m) = nat (size_m m - 1)" and "length (Vps m) = nat (size_m m - 1)"
    and "\<forall>v\<in>set (Vps m). v \<noteq> 0" and "length y = nat (size_m m)"
  shows "\<exists>d. rhs_intravenous m p t y = Inr d"
proof -
  from assms(2,6) have "y \<noteq> []" by auto
  moreover have "\<forall>c\<in>set [1..size_m m - 1]. comp_ok m (length y) c"
    using comp_ok_wellformed[OF assms(3) assms(4) assms(5), of "length y"] assms(6) by simp
  ultimately show ?thesis using rhs_intravenous_value[OF assms(1)] by blast
qed

lemma rhs_subcutaneous_returns:
  assumes "Vc m \<noteq> 0" and "1 \<le> size_m m"
    and "length (Qps m) = nat (size_m m - 1)" and "length (Vps m) = nat (size_m m - 1)"
    and "\<forall>v\<in>set (Vps m). v \<noteq> 0" and "length y = nat (size_m m + 1)"
  shows "\<exists>d. rhs_subcutaneous m p t y = Inr d"
proof -
  from assms(2,6) have "2 \<le> length y" and "nat (size_m m) \<le> length y - 1" by auto
  moreover from this(2) have "\<forall>c\<in>set [1..size_m m - 1]. comp_ok m (length y - 1) c"
    by (rule comp_ok_wellformed[OF assms(3) assms(4) assms(5)])
  ultimately show ?thesis using rhs_subcutaneous_value[OF assms(1)] by blast
qed

section \<open>No peripheral compartment\<close>

text \<open>
  Claim C6. With \<open>model.size = 1\<close> the range of both flux loops is empty, and both
  right-hand sides return without error: the intravenous one returns
  \<open>[dose(t) - state[0]/Vc*CL]\<close>, the subcutaneous one
  \<open>[dose(t) - k_a*state[0], k_a*state[0] - state[1]/Vc*CL]\<close>. Neither reads \<open>Qps\<close> or
  \<open>Vps\<close>: replacing them by any other lists changes nothing.
\<close>

theorem rhs_without_peripherals:
  assumes "size_m m = 1" and "Vc m \<noteq> 0" and "yi \<noteq> []" and "2 \<le> length ys"
  shows "[1..size_m m - 1] = []
    \<and> rhs_intravenous m p t yi = Inr [dose_time_function p t - yi ! 0 / Vc m * CL m]
    \<and> rhs_subcutaneous m p t ys =
        Inr [dose_time_function p t - k_a p * ys ! 0, k_a p * ys ! 0 - ys ! 1 / Vc m * CL m]
    \<and> rhs_intravenous (m\<lparr>Qps := q, Vps := v\<rparr>) p t yi = rhs_intravenous m p t yi
    \<and> rhs_subcutaneous (m\<lparr>Qps := q, Vps := v\<rparr>) p t ys = rhs_subcutaneous m p t ys"
proof -
  from assms(3) have i0: "index_py yi 0 = Inr (yi ! 0)" by (simp add: index_py_def)
  from assms(4) have s0: "index_py ys 0 = Inr (ys ! 0)" and s1: "index_py ys 1 = Inr (ys ! 1)"
    by (auto simp: index_py_def)
  have iv: "rhs_intravenous m' p t yi = Inr [dose_time_function p t - yi ! 0 / Vc m' * CL m']"
    if "size_m m' = 1" "Vc m' \<noteq> 0" for m'
    using that by (simp add: rhs_intravenous_def i0 truediv_nonzero)
  have sc: "rhs_subcutaneous m' p t ys =
      Inr [dose_time_function p t - k_a p * ys ! 0, k_a p * ys ! 0 - ys ! 1 / Vc m' * CL m']"
    if "size_m m' = 1" "Vc m' \<noteq> 0" for m'
    using that by (simp add: rhs_subcutaneous_def s0 s1 truediv_nonzero)
  from assms(1) have "[1..size_m m - 1] = []" by simp
  moreover note iv[of m] sc[of m] iv[of "m\<lparr>Qps := q, Vps := v\<rparr>"] sc[of "m\<lparr>Qps := q, Vps := v\<rparr>"]
  ultimately show ?thesis using assms(1,2) by simp
qed

theorem rhs_without_peripherals_witness:
  "rhs_intravenous model_one protocol_infusion 0 [8] = Inr [- 5]
    \<and> rhs_subcutaneous model_one protocol_injection 0 [5, 8] = Inr [- 3, - 2]
    \<and> rhs_intravenous (model_one\<lparr>Qps := [1], Vps := [0]\<rparr>) protocol_infusion 0 [8] = Inr [- 5]"
proof -
  have m: "size_m model_one = 1" "Vc model_one \<noteq> 0" by (simp_all add: model_one_def)
  have y: "[8::real] \<noteq> []" "2 \<le> length [5, 8::real]" by simp_all
  from rhs_without_peripherals[where p = protocol_infusion and t = 0 and q = "[1]" and v = "[0]", OF m y]
    rhs_without_peripherals[where p = protocol_injection and t = 0 and q = "[1]" and v = "[0]", OF m y]
  show ?thesis by (simp add: model_one_def protocol_infusion_def protocol_injection_def)
qed

section \<open>Mass balance\<close>

text \<open>
  Claim C9, amended. In exact arithmetic mass balance holds for every clearance and both
  regimens: computed over the real numbers, that is by \<open>rhs_intravenous\<close> and
  \<open>rhs_subcutaneous\<close>, the code with every rounding left out, the entries returned by the
  intravenous right-hand side sum to \<open>dose(t) - state[0]/Vc*CL\<close> and those returned by the
  subcutaneous one to \<open>dose(t) - state[1]/Vc*CL\<close>; the absorption terms \<open>k_a*state[0]\<close> of
  the depot and central entries cancel.
\<close>

theorem rhs_mass_balance:
  assumes "0 < Vc m" and "1 \<le> size_m m"
    and "length (Qps m) = nat (size_m m - 1)" and "length (Vps m) = nat (size_m m - 1)"
    and "\<forall>v\<in>set (Vps m). 0 < v"
    and "length yi = nat (size_m m)" and "length ys = nat (size_m m + 1)"
  shows "(\<exists>d. rhs_intravenous m p t yi = Inr d
            \<and> sum_list d = dose_time_function p t - yi ! 0 / Vc m * CL m)
       \<and> (\<exists>d. rhs_subcutaneous m p t ys = Inr d
            \<and> sum_list d = dose_time_function p t - ys ! 1 / Vc m * CL m
            \<and> d ! 0 + d ! 1 = dose_time_function p t - ys ! 1 / Vc m * CL m - sum_list (drop 2 d))"
proof -
  from assms(1,5) have nz: "Vc m \<noteq> 0" "\<forall>v\<in>set (Vps m). v \<noteq> 0" by auto
  from rhs_intravenous_returns[OF nz(1) assms(2,3,4) nz(2) assms(6)]
  obtain d where d: "rhs_intravenous m p t yi = Inr d" by blast
  from rhs_subcutaneous_returns[OF nz(1) assms(2,3,4) nz(2) assms(7)]
  obtain e where e: "rhs_subcutaneous m p t ys = Inr e" by blast
  from rhs_subcutaneous_Inr[OF e] have
    "e ! 0 + e ! 1 = dose_time_function p t - ys ! 1 / Vc m * CL m - sum_list (drop 2 e)"
    by auto
  with d e rhs_intravenous_mass_balance[OF d] rhs_subcutaneous_mass_balance[OF e]
  show ?thesis by blast
qed

theorem rhs_mass_balance_witness:
  "(\<exists>d. rhs_intravenous model_three protocol_infusion 0 [8, 4, 10] = Inr d \<and> sum_list d = 3)
     \<and> (\<exists>d. rhs_subcutaneous model_three protocol_injection 0 [5, 8, 4, 10] = Inr d
           \<and> sum_list d = 3 \<and> d ! 0 + d ! 1 = 3 - sum_list (drop 2 d))"
  using rhs_mass_balance[of model_three "[8, 4, 10]" "[5, 8, 4, 10]" protocol_infusion 0]
    rhs_mass_balance[of model_three "[8, 4, 10]" "[5, 8, 4, 10]" protocol_injection 0]
  by (simp add: model_three_def protocol_infusion_def protocol_injection_def)

section \<open>The depot\<close>

text \<open>
  Claim C8. Without dosing the depot does not grow: when \<open>dose(t) = 0\<close>, \<open>k_a > 0\<close> and
  \<open>state[0] \<ge> 0\<close>, entry \<open>0\<close> of the vector returned by the subcutaneous right-hand side
  is at most zero.
\<close>

theorem rhs_subcutaneous_depot_decays:
  assumes "dose_time_function p t = 0" and "0 < k_a p" and "0 \<le> y ! 0"
    and "0 < Vc m" and "1 \<le> size_m m"
    and "length (Qps m) = nat (size_m m - 1)" and "length (Vps m) = nat (size_m m - 1)"
    and "\<forall>v\<in>set (Vps m). 0 < v" and "length y = nat (size_m m + 1)"
  shows "\<exists>d. rhs_subcutaneous m p t y = Inr d \<and> d ! 0 \<le> 0"
proof -
  from assms(4,8) have nz: "Vc m \<noteq> 0" "\<forall>v\<in>set (Vps m). v \<noteq> 0" by auto
  from rhs_subcutaneous_returns[OF nz(1) assms(5,6,7) nz(2) assms(9)]
  obtain d where d: "rhs_subcutaneous m p t y = Inr d" by blast
  from rhs_subcutaneous_Inr[OF d] have "d ! 0 = dose_time_function p t - k_a p * y ! 0"
    by auto
  moreover from assms(2,3) have "0 \<le> k_a p * y ! 0" by simp
  ultimately have "d ! 0 \<le> 0" using assms(1) by simp
  with d show ?thesis by blast
qed

theorem rhs_subcutaneous_depot_decays_witness:
  "\<exists>d. rhs_subcutaneous model_three protocol_no_dose 0 [5, 8, 4, 10] = Inr d \<and> d ! 0 \<le> 0"
  using rhs_subcutaneous_depot_decays[of protocol_no_dose 0 "[5, 8, 4, 10]" model_three]
  by (simp add: model_three_def protocol_no_dose_def)

section \<open>The evaluation grid\<close>

lemma index_py_first_last:
  assumes "xs \<noteq> []"
  shows "index_py xs 0 = Inr (hd xs)" and "index_py xs (- 1) = Inr (last xs)"
proof -
  from assms obtain x xs' where xs: "xs = x # xs'" by (cases xs) auto
  show "index_py xs 0 = Inr (hd xs)" by (simp add: xs index_py_def)
  have "(x # xs') ! length xs' = last (x # xs')"
    using last_conv_nth[of "x # xs'"] by simp
  then show "index_py xs (- 1) = Inr (last xs)"
    by (simp add: xs index_py_def del: last.simps)
qed

lemma index_py_empty: "index_py [] i = Inl IndexError"
  by (simp add: index_py_def)

lemma np_linspace_zero: "np_linspace start stop 0 = Inr []"
  by (simp add: np_linspace_def)

lemma np_linspace_length:
  assumes "0 \<le> num" and "np_linspace start stop num = Inr g"
  shows "length g = nat num"
  using assms by (auto simp: np_linspace_def split: if_splits)

lemma np_linspace_returns: "0 \<le> num \<Longrightarrow> \<exists>g. np_linspace start stop num = Inr g"
  by (simp add: np_linspace_def)

lemma np_linspace_nth:
  assumes "2 \<le> num" and "np_linspace 0 stop num = Inr g" and "i < nat num"
  shows "g ! i = real i * (stop / real_of_int (num - 1))"
proof -
  from assms(1,2) have g: "g = map (\<lambda>i. real_of_int i * (stop / real_of_int (num - 1))) [0..num - 1]"
    by (auto simp: np_linspace_def split: if_splits)
  from assms(3) have "i < length [0..num - 1]" by simp
  moreover from assms(3) have "[0..num - 1] ! i = int i" by simp
  ultimately show ?thesis by (simp add: g)
qed

lemma np_linspace_ends:
  assumes "2 \<le> num" and "np_linspace 0 stop num = Inr g"
  shows "g \<noteq> []" and "hd g = 0" and "last g = stop"
proof -
  from assms have len: "length g = nat num" by (intro np_linspace_length) auto
  with assms(1) show ne: "g \<noteq> []" by auto
  from ne have "hd g = g ! 0" by (simp add: hd_conv_nth)
  also have "\<dots> = 0" using np_linspace_nth[OF assms, of 0] assms(1) by simp
  finally show "hd g = 0" .
  from ne have "last g = g ! (nat num - 1)" by (simp add: last_conv_nth len)
  also have "\<dots> = real (nat num - 1) * (stop / real_of_int (num - 1))"
    using assms(1) by (intro np_linspace_nth[OF assms]) simp
  also have "real (nat num - 1) = real_of_int (num - 1)" using assms(1) by simp
  also have "real_of_int (num - 1) * (stop / real_of_int (num - 1)) = stop" using assms(1) by simp
  finally show "last g = stop" .
qed

section \<open>Facts about the solver driver\<close>

lemma solver_unfold:
  "solver integ s =
     (case np_zeros (state_size (model s) (protocol s)) of
        Inl e \<Rightarrow> (Inl e, s)
      | Inr z \<Rightarrow>
          (case index_py (t_eval s) 0 of
             Inl e \<Rightarrow> (Inl e, s\<lparr>y0 := Some z, sol := Some (Zeros z)\<rparr>)
           | Inr t_first \<Rightarrow>
               (case index_py (t_eval s) (- 1) of
                  Inl e \<Rightarrow> (Inl e, s\<lparr>y0 := Some z, sol := Some (Zeros z)\<rparr>)
                | Inr t_last \<Rightarrow>
                    (case integ (step_func (model s) (protocol s)) (t_first, t_last) z (t_eval s) of
                       Inl e \<Rightarrow> (Inl e, s\<lparr>y0 := Some z, sol := Some (Zeros z)\<rparr>)
                     | Inr r \<Rightarrow> (Inr r, s\<lparr>y0 := Some z, sol := Some (Result r)\<rparr>)))))"
  by (simp add: solver_def step_func_def state_size_def Let_def split: sum.splits)

lemma solver_on_grid:
  assumes "0 \<le> state_size (model s) (protocol s)" and "t_eval s \<noteq> []"
  shows "solver integ s =
     (case integ (step_func (model s) (protocol s)) (hd (t_eval s), last (t_eval s))
             (replicate (nat (state_size (model s) (protocol s))) 0) (t_eval s) of
        Inl e \<Rightarrow> (Inl e, s\<lparr>y0 := Some (replicate (nat (state_size (model s) (protocol s))) 0),
                          sol := Some (Zeros (replicate (nat (state_size (model s) (protocol s))) 0))\<rparr>)
      | Inr r \<Rightarrow> (Inr r, s\<lparr>y0 := Some (replicate (nat (state_size (model s) (protocol s))) 0),
                          sol := Some (Result r)\<rparr>))"
  using assms by (simp add: solver_unfold np_zeros_def index_py_first_last)

lemma solver_reads_only:
  assumes "model s = model s'" and "protocol s = protocol s'" and "t_eval s = t_eval s'"
  shows "fst (solver integ s) = fst (solver integ s')"
  by (simp add: solver_unfold assms split: sum.splits)

lemma Solution_init_on_grid:
  assumes "np_linspace 0 tmax nsteps = Inr g" and "g \<noteq> []" and "0 \<le> state_size m p"
  shows "Solution_init integ m p tmax nsteps =
     (case integ (step_func m p) (hd g, last g) (replicate (nat (state_size m p)) 0) g of
        Inl e \<Rightarrow> Inl e
      | Inr r \<Rightarrow> Inr \<lparr>model = m, protocol = p, t_eval = g,
                       y0 = Some (replicate (nat (state_size m p)) 0), sol = Some (Result r)\<rparr>)"
proof -
  let ?s = "\<lparr>model = m, protocol = p, t_eval = g, y0 = None, sol = None\<rparr>"
  have "0 \<le> state_size (model ?s) (protocol ?s)" and "t_eval ?s \<noteq> []"
    using assms(2,3) by simp_all
  from solver_on_grid[OF this, of integ] show ?thesis
    by (simp add: Solution_init_def assms(1) split: sum.splits)
qed

lemma Solution_init_Inr:
  assumes "Solution_init integ m p tmax nsteps = Inr s"
  shows "\<exists>g z r. np_linspace 0 tmax nsteps = Inr g \<and> g \<noteq> [] \<and> np_zeros (state_size m p) = Inr z
     \<and> integ (step_func m p) (hd g, last g) z g = Inr r
     \<and> s = \<lparr>model = m, protocol = p, t_eval = g, y0 = Some z, sol = Some (Result r)\<rparr>"
proof -
  from assms obtain g where g: "np_linspace 0 tmax nsteps = Inr g"
    by (auto simp: Solution_init_def split: sum.splits)
  let ?s = "\<lparr>model = m, protocol = p, t_eval = g, y0 = None, sol = None\<rparr>"
  from assms g obtain r where r: "solver integ ?s = (Inr r, s)"
    by (auto simp: Solution_init_def split: sum.splits prod.splits)
  then obtain z where z: "np_zeros (state_size m p) = Inr z"
    by (auto simp: solver_unfold split: sum.splits)
  have ne: "g \<noteq> []"
  proof
    assume "g = []"
    with r z show False by (simp add: solver_unfold index_py_empty)
  qed
  from r z ne have "integ (step_func m p) (hd g, last g) z g = Inr r
      \<and> s = \<lparr>model = m, protocol = p, t_eval = g, y0 = Some z, sol = Some (Result r)\<rparr>"
    by (auto simp: solver_unfold index_py_first_last split: sum.splits)
  with g z ne show ?thesis by blast
qed

section \<open>Parameter validation\<close>

text \<open>
  Claim C3 as stated fails: a model with \<open>Vc = 0\<close> and peripheral arrays of different
  lengths is handed to the integrator, and the constructor raises what the integrator
  raises, or returns an object when the integrator returns.
\<close>

theorem invalid_model_reaches_integrator:
  "Solution_init integrator_raising model_invalid protocol_infusion 1 1000
       = Inl (OtherError ''integrator called'')
     \<and> Solution_init integrator_raising model_invalid protocol_infusion 1 1000
       \<noteq> Inl (OtherError ''ConfigurationError'')
     \<and> \<not> isl (Solution_init integrator_constant model_invalid protocol_infusion 1 1000)"
proof -
  obtain g where g: "np_linspace 0 1 1000 = Inr g" using np_linspace_returns[of 1000 0 1] by auto
  then have "length g = nat 1000" by (intro np_linspace_length) auto
  then have ne: "g \<noteq> []" by auto
  have sz: "0 \<le> state_size model_invalid protocol_infusion"
    by (simp add: state_size_def model_invalid_def protocol_infusion_def)
  show ?thesis
    by (simp add: Solution_init_on_grid[OF g ne sz] integrator_raising_def integrator_constant_def)
qed

text \<open>
  Claim C3, amended. The constructor validates nothing. Only the library calls reject
  anything before the integrator runs: \<open>nsteps < 0\<close> raises \<open>ValueError\<close> in \<open>linspace\<close>, a
  negative state length raises \<open>ValueError\<close> in \<open>zeros\<close>, and \<open>nsteps = 0\<close> raises
  \<open>IndexError\<close> at \<open>t_eval[0]\<close>. For \<open>nsteps \<ge> 1\<close> and a non-negative state length the
  integrator is called with the parameters as given, whatever \<open>Vc\<close>, \<open>Qps\<close>, \<open>Vps\<close> and
  \<open>tmax\<close> are, and the constructor's outcome is the integrator's. No \<open>ConfigurationError\<close>
  is raised unless the integrator raises one.
\<close>

theorem Solution_init_validates_nothing:
  "(nsteps < 0 \<longrightarrow> Solution_init integ m p tmax nsteps = Inl ValueError)
   \<and> (0 \<le> nsteps \<and> state_size m p < 0 \<longrightarrow> Solution_init integ m p tmax nsteps = Inl ValueError)
   \<and> (nsteps = 0 \<and> 0 \<le> state_size m p \<longrightarrow> Solution_init integ m p tmax nsteps = Inl IndexError)
   \<and> (1 \<le> nsteps \<and> 0 \<le> state_size m p \<longrightarrow>
        (\<exists>g. np_linspace 0 tmax nsteps = Inr g \<and> length g = nat nsteps
           \<and> Solution_init integ m p tmax nsteps =
               (case integ (step_func m p) (hd g, last g) (replicate (nat (state_size m p)) 0) g of
                  Inl e \<Rightarrow> Inl e
                | Inr r \<Rightarrow> Inr \<lparr>model = m, protocol = p, t_eval = g,
                                 y0 = Some (replicate (nat (state_size m p)) 0),
                                 sol = Some (Result r)\<rparr>)))
   \<and> ((\<forall>f sp z g. integ f sp z g \<noteq> Inl (OtherError ''ConfigurationError''))
        \<longrightarrow> Solution_init integ m p tmax nsteps \<noteq> Inl (OtherError ''ConfigurationError''))"
proof (intro conjI impI)
  assume "nsteps < 0"
  then show "Solution_init integ m p tmax nsteps = Inl ValueError"
    by (simp add: Solution_init_def np_linspace_def)
next
  assume a: "0 \<le> nsteps \<and> state_size m p < 0"
  then obtain g where "np_linspace 0 tmax nsteps = Inr g"
    using np_linspace_returns[of nsteps 0 tmax] by auto
  with a show "Solution_init integ m p tmax nsteps = Inl ValueError"
    by (simp add: Solution_init_def solver_unfold np_zeros_def)
next
  assume "nsteps = 0 \<and> 0 \<le> state_size m p"
  then show "Solution_init integ m p tmax nsteps = Inl IndexError"
    by (simp add: Solution_init_def np_linspace_zero solver_unfold np_zeros_def index_py_empty)
next
  assume a: "1 \<le> nsteps \<and> 0 \<le> state_size m p"
  then obtain g where g: "np_linspace 0 tmax nsteps = Inr g"
    using np_linspace_returns[of nsteps 0 tmax] by auto
  with a have len: "length g = nat nsteps" by (intro np_linspace_length) auto
  with a have ne: "g \<noteq> []" by auto
  from a have sz: "0 \<le> state_size m p" by simp
  from g len Solution_init_on_grid[OF g ne sz, of integ]
  show "\<exists>g. np_linspace 0 tmax nsteps = Inr g \<and> length g = nat nsteps
           \<and> Solution_init integ m p tmax nsteps =
               (case integ (step_func m p) (hd g, last g) (replicate (nat (state_size m p)) 0) g of
                  Inl e \<Rightarrow> Inl e
                | Inr r \<Rightarrow> Inr \<lparr>model = m, protocol = p, t_eval = g,
                                 y0 = Some (replicate (nat (state_size m p)) 0),
                                 sol = Some (Result r)\<rparr>)"
    by blast
next
  assume a: "\<forall>f sp z g. integ f sp z g \<noteq> Inl (OtherError ''ConfigurationError'')"
  show "Solution_init integ m p tmax nsteps \<noteq> Inl (OtherError ''ConfigurationError'')"
  proof
    assume "Solution_init integ m p tmax nsteps = Inl (OtherError ''ConfigurationError'')"
    then obtain f sp z g where "integ f sp z g = Inl (OtherError ''ConfigurationError'')"
      by (auto simp: Solution_init_def solver_unfold np_linspace_def np_zeros_def index_py_def
          split: sum.splits if_splits)
    with a show False by blast
  qed
qed

theorem Solution_init_validates_nothing_witness:
  "Solution_init integrator_raising model_invalid protocol_infusion 1 (- 1) = Inl ValueError
   \<and> Solution_init integrator_raising model_invalid protocol_infusion 1 0 = Inl IndexError
   \<and> Solution_init integrator_raising model_invalid protocol_infusion (- 1) 1
        = Inl (OtherError ''integrator called'')
   \<and> Solution_init integrator_constant model_invalid protocol_infusion 0 2
        \<noteq> Inl (OtherError ''ConfigurationError'')"
proof -
  have sz: "0 \<le> state_size model_invalid protocol_infusion"
    by (simp add: state_size_def model_invalid_def protocol_infusion_def)
  have 1: "Solution_init integrator_raising model_invalid protocol_infusion 1 (- 1) = Inl ValueError"
    using Solution_init_validates_nothing[where nsteps = "- 1" and integ = integrator_raising and m = model_invalid
        and p = protocol_infusion and tmax = "1"]
    by simp
  have 2: "Solution_init integrator_raising model_invalid protocol_infusion 1 0 = Inl IndexError"
    using Solution_init_validates_nothing[where nsteps = "0" and integ = integrator_raising and m = model_invalid
        and p = protocol_infusion and tmax = "1"] sz
    by simp
  have 3: "Solution_init integrator_raising model_invalid protocol_infusion (- 1) 1
        = Inl (OtherError ''integrator called'')"
    using Solution_init_validates_nothing[where nsteps = "1" and integ = integrator_raising and m = model_invalid
        and p = protocol_infusion and tmax = "- 1"] sz
    by (auto simp: integrator_raising_def)
  have "\<forall>f sp z g. integrator_constant f sp z g \<noteq> Inl (OtherError ''ConfigurationError'')"
    by (simp add: integrator_constant_def)
  with Solution_init_validates_nothing[where nsteps = "2" and integ = integrator_constant and m = model_invalid
        and p = protocol_infusion and tmax = "0"]
  have 4: "Solution_init integrator_constant model_invalid protocol_infusion 0 2
        \<noteq> Inl (OtherError ''ConfigurationError'')"
    by blast
  from 1 2 3 4 show ?thesis by blast
qed

section \<open>Integrator failure\<close>

text \<open>
  Claim C4 as stated fails: when the integrator gives up and says so in its result, the
  solve returns that result, truncated trajectory included, and raises nothing.
\<close>

theorem solver_returns_truncated_trajectory:
  "fst (solver integrator_failing
          \<lparr>model = model_three, protocol = protocol_infusion, t_eval = [0, 1],
           y0 = None, sol = None\<rparr>)
     = Inr \<lparr>sol_t = [0], sol_y = [[0], [0], [0]], sol_success = False\<rparr>"
  by (simp add: solver_unfold state_size_def np_zeros_def index_py_def integrator_failing_def
      model_three_def protocol_infusion_def numeral_3_eq_3)

text \<open>
  Claim C4, amended. The integrator reports a failure to converge in its result
  (\<open>success\<close> is false) instead of raising. The solve then returns exactly that result and
  stores it in \<open>self.sol\<close>; it raises no \<open>IntegrationFailure\<close>. The failure can be told
  only from the result's flag.
\<close>

theorem solver_returns_integrator_result:
  assumes "0 \<le> state_size (model s) (protocol s)" and "t_eval s \<noteq> []"
    and "integ (step_func (model s) (protocol s)) (hd (t_eval s), last (t_eval s))
           (replicate (nat (state_size (model s) (protocol s))) 0) (t_eval s) = Inr r"
    and "\<not> sol_success r"
  shows "solver integ s =
           (Inr r, s\<lparr>y0 := Some (replicate (nat (state_size (model s) (protocol s))) 0),
                      sol := Some (Result r)\<rparr>)
       \<and> fst (solver integ s) \<noteq> Inl (OtherError ''IntegrationFailure'')"
  using assms(3) by (simp add: solver_on_grid[OF assms(1,2)])

theorem solver_returns_integrator_result_witness:
  "solver integrator_failing
      \<lparr>model = model_three, protocol = protocol_injection, t_eval = [0, 2], y0 = None, sol = None\<rparr>
     = (Inr \<lparr>sol_t = [0], sol_y = [[0], [0], [0], [0]], sol_success = False\<rparr>,
        \<lparr>model = model_three, protocol = protocol_injection, t_eval = [0, 2],
         y0 = Some [0, 0, 0, 0],
         sol = Some (Result \<lparr>sol_t = [0], sol_y = [[0], [0], [0], [0]], sol_success = False\<rparr>)\<rparr>)"
proof -
  let ?s = "\<lparr>model = model_three, protocol = protocol_injection, t_eval = [0, 2],
             y0 = None, sol = None\<rparr>"
  let ?r = "\<lparr>sol_t = [0], sol_y = [[0], [0], [0], [0::real]], sol_success = False\<rparr>"
  have sz: "state_size model_three protocol_injection = 4"
    by (simp add: state_size_def model_three_def protocol_injection_def)
  have rep: "replicate 4 x = [x, x, x, x]" for x :: 'a by (simp add: numeral_eq_Suc)
  have 1: "0 \<le> state_size (model ?s) (protocol ?s)" by (simp add: sz)
  have 2: "t_eval ?s \<noteq> []" by simp
  have 3: "integrator_failing (step_func (model ?s) (protocol ?s)) (hd (t_eval ?s), last (t_eval ?s))
           (replicate (nat (state_size (model ?s) (protocol ?s))) 0) (t_eval ?s) = Inr ?r"
    by (simp add: sz rep integrator_failing_def)
  have 4: "\<not> sol_success ?r" by simp
  from solver_returns_integrator_result[where s = ?s and integ = integrator_failing and r = ?r,
      OF 1 2 3 4]
  show ?thesis by (simp add: sz rep)
qed

section \<open>The grid and the returned times\<close>

lemma np_linspace_two: "np_linspace 0 stop 2 = Inr [0, stop]"
  by (simp add: np_linspace_def upto.simps)

lemma state_size_example: "state_size model_three protocol_infusion = 3"
  by (simp add: state_size_def model_three_def protocol_infusion_def)

lemma replicate_three: "replicate 3 x = [x, x, x]"
  by (simp add: numeral_3_eq_3)

lemma Solution_init_example:
  "Solution_init integrator_constant model_three protocol_infusion 1 2 = Inr solution_example"
proof -
  have "0 \<le> state_size model_three protocol_infusion" by (simp add: state_size_example)
  from Solution_init_on_grid[OF np_linspace_two _ this, of 1 integrator_constant]
  show ?thesis
    by (simp add: state_size_example replicate_three integrator_constant_def
        solution_example_def result_example_def)
qed

text \<open>
  Claim C5 as stated fails: after a failed integration the returned times are the
  integrator's, fewer than the grid.
\<close>

theorem failed_solve_returns_fewer_times:
  "Solution_init integrator_failing model_three protocol_infusion 1 2 =
     Inr \<lparr>model = model_three, protocol = protocol_infusion, t_eval = [0, 1],
          y0 = Some [0, 0, 0],
          sol = Some (Result \<lparr>sol_t = [0], sol_y = [[0], [0], [0]], sol_success = False\<rparr>)\<rparr>"
proof -
  have "0 \<le> state_size model_three protocol_infusion" by (simp add: state_size_example)
  from Solution_init_on_grid[OF np_linspace_two _ this, of 1 integrator_failing]
  show ?thesis
    by (simp add: state_size_example replicate_three integrator_failing_def)
qed

section \<open>Repeatability\<close>

text \<open>
  Claim C10. The integrator and the dose function are functions, hence deterministic.
  The solve reads the model, the protocol and the grid only, and changes none of them:
  every solve on an object with the same model, protocol and grid returns the trajectory
  computed at construction, whatever \<open>y0\<close> and \<open>sol\<close> hold. In particular the solve done
  again inside \<open>generate_plot\<close> returns that trajectory, which is the one drawn, and leaves
  the object as it was.
\<close>

theorem resolve_returns_same_trajectory:
  assumes "Solution_init integ m p tmax nsteps = Inr s"
  shows "\<exists>r. sol s = Some (Result r) \<and> solver integ s = (Inr r, s)
      \<and> generate_plot integ separate s = (draw_plot separate m r, s)
      \<and> (\<forall>s' :: Solution. model s' = m \<and> protocol s' = p \<and> t_eval s' = t_eval s
            \<longrightarrow> fst (solver integ s') = Inr r)"
proof -
  from Solution_init_Inr[OF assms] obtain g z r
    where ne: "g \<noteq> []" and z: "np_zeros (state_size m p) = Inr z"
      and call: "integ (step_func m p) (hd g, last g) z g = Inr r"
      and s: "s = \<lparr>model = m, protocol = p, t_eval = g, y0 = Some z, sol = Some (Result r)\<rparr>"
    by blast
  have again: "solver integ s = (Inr r, s)"
    by (simp add: solver_unfold s z index_py_first_last[OF ne] call)
  have plot: "generate_plot integ separate s = (draw_plot separate m r, s)"
    by (simp add: generate_plot_def again) (simp add: s)
  have any: "fst (solver integ s') = Inr r"
    if "model s' = m \<and> protocol s' = p \<and> t_eval s' = t_eval s" for s' :: Solution
  proof -
    from that have "fst (solver integ s') = fst (solver integ s)"
      by (intro solver_reads_only) (simp_all add: s)
    with again show ?thesis by simp
  qed
  from s again plot any show ?thesis by simp
qed

theorem resolve_returns_same_trajectory_witness:
  "solver integrator_constant solution_example = (Inr result_example, solution_example)
     \<and> generate_plot integrator_constant False solution_example
         = (Inr [([0, 1], [0, 0]), ([0, 1], [0, 0]), ([0, 1], [0, 0])], solution_example)"
proof -
  from resolve_returns_same_trajectory[OF Solution_init_example, of False]
  obtain r where "sol solution_example = Some (Result r)"
    and 1: "solver integrator_constant solution_example = (Inr r, solution_example)"
    and 2: "generate_plot integrator_constant False solution_example
              = (draw_plot False model_three r, solution_example)"
    by blast
  then have r: "r = result_example" by (simp add: solution_example_def)
  have "draw_plot False model_three result_example
          = Inr [([0, 1], [0, 0]), ([0, 1], [0, 0]), ([0, 1], [0, 0])]"
    by (simp add: draw_plot_def model_three_def result_example_def index_py_def upto.simps)
  with 1 2 r show ?thesis by simp
qed

section \<open>Total mass along an exact trajectory\<close>




section \<open>Rounded and exact arithmetic\<close>

lemma flux_loop_intravenous_fl_exact:
  "flux_loop_intravenous_fl (\<lambda>x. x) m state comps acc = flux_loop_intravenous m state comps acc"
proof (induction comps arbitrary: acc)
  case Nil
  show ?case by (cases acc) simp
next
  case (Cons c comps)
  show ?case by (cases acc) (simp add: Cons.IH truediv_fl_def truediv_def Let_def)
qed

lemma rhs_intravenous_fl_exact:
  "rhs_intravenous_fl (\<lambda>x. x) m p t y = rhs_intravenous m p t y"
  by (simp add: rhs_intravenous_fl_def rhs_intravenous_def flux_loop_intravenous_fl_exact
      truediv_fl_def truediv_def)

lemma flux_loop_subcutaneous_fl_exact:
  "flux_loop_subcutaneous_fl (\<lambda>x. x) m state comps acc = flux_loop_subcutaneous m state comps acc"
proof (induction comps arbitrary: acc)
  case Nil
  show ?case by (cases acc) simp
next
  case (Cons c comps)
  show ?case by (cases acc) (simp add: Cons.IH truediv_fl_def truediv_def Let_def)
qed

lemma rhs_subcutaneous_fl_exact:
  "rhs_subcutaneous_fl (\<lambda>x. x) m p t y = rhs_subcutaneous m p t y"
  by (simp add: rhs_subcutaneous_fl_def rhs_subcutaneous_def flux_loop_subcutaneous_fl_exact
      truediv_fl_def truediv_def)


lemma rhs_subcutaneous_double_example:
  "rhs_subcutaneous_fl round_double model_thirds protocol_unit_depot 0 [1, 1, 4] =
     Inr [0, 2627099782632789 / 2 ^ 49, - (8256599316845909 / 2 ^ 51)]"
  by code_simp


text \<open>
  Claim C9 as stated fails: in double precision the entries returned by the subcutaneous
  right-hand side sum to \<open>1 - 2^-51\<close> where \<open>dose(t) - state[1]/Vc*CL\<close> is \<open>1\<close>.
\<close>

theorem double_mass_balance_differs:
  "rhs_subcutaneous_fl round_double model_thirds protocol_unit_depot 0 [1, 1, 4] =
       Inr [0, 2627099782632789 / 2 ^ 49, - (8256599316845909 / 2 ^ 51)]
     \<and> sum_list [0, 2627099782632789 / 2 ^ 49, - (8256599316845909 / 2 ^ 51) :: real]
         = 1 - 1 / 2 ^ 51
     \<and> dose_time_function protocol_unit_depot 0
           - [1, 1, 4] ! 1 / Vc model_thirds * CL model_thirds = 1"
proof -
  have sum: "sum_list [0, 2627099782632789 / 2 ^ 49, - (8256599316845909 / 2 ^ 51) :: real]
      = 1 - 1 / 2 ^ 51"
    by simp
  have "dose_time_function protocol_unit_depot 0
          - [1, 1, 4] ! 1 / Vc model_thirds * CL model_thirds = 1"
    by (simp add: model_thirds_def protocol_unit_depot_def)
  with rhs_subcutaneous_double_example sum show ?thesis by blast
qed

section \<open>An exact trajectory with flux\<close>



section \<open>The grid requested and the times returned\<close>

text \<open>
  Claim C5, amended. For \<open>tmax > 0\<close> and \<open>nsteps \<ge> 2\<close> the grid the solve builds is
  \<open>linspace(0, tmax, nsteps)\<close>: exactly \<open>nsteps\<close> points, the first \<open>0\<close> and the last \<open>tmax\<close>,
  and exactly \<open>[0, tmax]\<close> for \<open>nsteps = 2\<close>. The solve requests that grid from the
  integrator as \<open>t_eval\<close>, with the span from \<open>0\<close> to \<open>tmax\<close>, and keeps it as its own
  \<open>t_eval\<close>. Whatever result the integrator returns for that request, successful or
  not, is stored and returned as it is, and what the integrator raises is raised: the
  trajectory times returned are the integrator's, neither checked against the grid nor
  changed.
\<close>

theorem solve_grid:
  assumes "0 < tmax" and "2 \<le> nsteps"
  shows "\<exists>g. np_linspace 0 tmax nsteps = Inr g \<and> length g = nat nsteps
     \<and> hd g = 0 \<and> last g = tmax
     \<and> (nsteps = 2 \<longrightarrow> g = [0, tmax])
     \<and> (0 \<le> state_size m p \<longrightarrow>
          (\<forall>r. integ (step_func m p) (0, tmax) (replicate (nat (state_size m p)) 0) g = Inr r
             \<longrightarrow> Solution_init integ m p tmax nsteps =
                   Inr \<lparr>model = m, protocol = p, t_eval = g,
                        y0 = Some (replicate (nat (state_size m p)) 0),
                        sol = Some (Result r)\<rparr>)
          \<and> (\<forall>e. integ (step_func m p) (0, tmax) (replicate (nat (state_size m p)) 0) g = Inl e
             \<longrightarrow> Solution_init integ m p tmax nsteps = Inl e))
     \<and> (\<forall>s. Solution_init integ m p tmax nsteps = Inr s \<longrightarrow>
          t_eval s = g
          \<and> (\<exists>z r. integ (step_func m p) (0, tmax) z g = Inr r \<and> sol s = Some (Result r)))"
proof -
  from assms(2) obtain g where g: "np_linspace 0 tmax nsteps = Inr g"
    using np_linspace_returns[of nsteps 0 tmax] by auto
  from assms(2) g have len: "length g = nat nsteps" by (intro np_linspace_length) auto
  note ends = np_linspace_ends[OF assms(2) g]
  have two: "g = [0, tmax]" if "nsteps = 2"
    using g that by (simp add: np_linspace_two)
  have pass: "(\<forall>r. integ (step_func m p) (0, tmax) (replicate (nat (state_size m p)) 0) g = Inr r
             \<longrightarrow> Solution_init integ m p tmax nsteps =
                   Inr \<lparr>model = m, protocol = p, t_eval = g,
                        y0 = Some (replicate (nat (state_size m p)) 0),
                        sol = Some (Result r)\<rparr>)
          \<and> (\<forall>e. integ (step_func m p) (0, tmax) (replicate (nat (state_size m p)) 0) g = Inl e
             \<longrightarrow> Solution_init integ m p tmax nsteps = Inl e)"
    if "0 \<le> state_size m p"
    using Solution_init_on_grid[OF g ends(1) that, of integ] by (simp add: ends)
  have returned: "t_eval s = g
      \<and> (\<exists>z r. integ (step_func m p) (0, tmax) z g = Inr r \<and> sol s = Some (Result r))"
    if "Solution_init integ m p tmax nsteps = Inr s" for s
  proof -
    from Solution_init_Inr[OF that] obtain g' z r
      where g': "np_linspace 0 tmax nsteps = Inr g'"
        and call: "integ (step_func m p) (hd g', last g') z g' = Inr r"
        and s: "s = \<lparr>model = m, protocol = p, t_eval = g', y0 = Some z, sol = Some (Result r)\<rparr>"
      by blast
    from g g' have "g' = g" by simp
    with call s ends show ?thesis by auto
  qed
  from g len ends two pass returned show ?thesis by blast
qed

theorem solve_grid_witness:
  "np_linspace 0 1 2 = Inr [0, 1]
     \<and> Solution_init integrator_constant model_three protocol_infusion 1 2 = Inr solution_example
     \<and> t_eval solution_example = [0, 1]
     \<and> sol solution_example = Some (Result result_example)"
proof -
  have 1: "(0::real) < 1" and 2: "(2::int) \<le> 2" by simp_all
  let ?z = "replicate (nat (state_size model_three protocol_infusion)) (0::real)"
  from solve_grid[OF 1 2, of model_three protocol_infusion integrator_constant]
  obtain g where g: "np_linspace 0 1 2 = Inr g" and two: "(2::int) = 2 \<longrightarrow> g = [0, 1]"
    and pass: "0 \<le> state_size model_three protocol_infusion \<longrightarrow>
      (\<forall>r. integrator_constant (step_func model_three protocol_infusion) (0, 1) ?z g = Inr r
         \<longrightarrow> Solution_init integrator_constant model_three protocol_infusion 1 2 =
               Inr \<lparr>model = model_three, protocol = protocol_infusion, t_eval = g,
                    y0 = Some ?z, sol = Some (Result r)\<rparr>)
      \<and> (\<forall>e. integrator_constant (step_func model_three protocol_infusion) (0, 1) ?z g = Inl e
         \<longrightarrow> Solution_init integrator_constant model_three protocol_infusion 1 2 = Inl e)"
    by blast
  from two have g01: "g = [0, 1]" by simp
  have z: "?z = [0, 0, 0]" by (simp add: state_size_example replicate_three)
  have call: "integrator_constant (step_func model_three protocol_infusion) (0, 1) ?z g
      = Inr result_example"
    by (simp add: z g01 integrator_constant_def result_example_def)
  from pass call have "Solution_init integrator_constant model_three protocol_infusion 1 2 =
      Inr \<lparr>model = model_three, protocol = protocol_infusion, t_eval = g,
           y0 = Some ?z, sol = Some (Result result_example)\<rparr>"
    by (simp add: state_size_example)
  then have "Solution_init integrator_constant model_three protocol_infusion 1 2
      = Inr solution_example"
    by (simp add: z g01 solution_example_def)
  with g g01 show ?thesis by (simp add: solution_example_def)
qed

end
